theory Spec2Isabelle
  imports Complex_Main
begin

section \<open>JavaScript values\<close>

text \<open>
  The library is dynamically typed: every check it makes is a truthiness test, a
  \<open>typeof\<close> test or a strict comparison on a value that may be anything.  The values
  that reach it are modelled by one datatype.  Numbers are the finite ones and are
  carried exactly (\<open>NaN\<close> and the infinities are left out); strings are lists of code
  units below 256; an object is the list of its own properties in insertion order, each
  name occurring once.
\<close>

datatype jsval =
    JUndefined
  | JNull
  | JBool bool
  | JNumber rat
  | JString string
  | JArray "jsval list"
  | JObject "(string \<times> jsval) list"

text \<open>ToBoolean.\<close>

fun truthy :: "jsval \<Rightarrow> bool" where
  "truthy JUndefined = False"
| "truthy JNull = False"
| "truthy (JBool b) = b"
| "truthy (JNumber q) = (q \<noteq> 0)"
| "truthy (JString s) = (s \<noteq> [])"
| "truthy (JArray xs) = True"
| "truthy (JObject kvs) = True"

text \<open>\<open>a || b\<close>.\<close>

definition js_or :: "jsval \<Rightarrow> jsval \<Rightarrow> jsval" where
  "js_or a b = (if truthy a then a else b)"

text \<open>\<open>typeof v === 'object'\<close> and \<open>typeof v === 'string'\<close>.  The tests
  \<open>typeof v !== 'number'\<close> and \<open>Array.isArray(v)\<close> are written below as a case
  distinction on the value.\<close>

fun typeof_object :: "jsval \<Rightarrow> bool" where
  "typeof_object JNull = True"
| "typeof_object (JArray xs) = True"
| "typeof_object (JObject kvs) = True"
| "typeof_object v = False"

fun typeof_string :: "jsval \<Rightarrow> bool" where
  "typeof_string (JString s) = True"
| "typeof_string v = False"

text \<open>
  \<open>v.name\<close> for the property names the library reads (\<open>messages\<close>, \<open>role\<close>,
  \<open>content\<close>, \<open>choices\<close>, ...): none of them is an index, \<open>length\<close> or a name found
  on a built-in prototype, so only an object can have one.  On \<open>undefined\<close> and \<open>null\<close>
  the access throws in JavaScript; every caller below either has tested the receiver
  for truthiness first, as the source does, or tests for these two values itself.
\<close>

fun get_prop :: "jsval \<Rightarrow> string \<Rightarrow> jsval" where
  "get_prop (JObject kvs) k = (case map_of kvs k of None \<Rightarrow> JUndefined | Some v \<Rightarrow> v)"
| "get_prop v k = JUndefined"

definition nullish :: "jsval \<Rightarrow> bool" where
  "nullish v = (v = JUndefined \<or> v = JNull)"

text \<open>\<open>v[0]\<close>: the first element of an array, the first code unit of a string, the
  property \<open>"0"\<close> of an object.\<close>

fun get_index0 :: "jsval \<Rightarrow> jsval" where
  "get_index0 (JArray (x # xs)) = x"
| "get_index0 (JString (c # cs)) = JString [c]"
| "get_index0 (JObject kvs) = (case map_of kvs ''0'' of None \<Rightarrow> JUndefined | Some v \<Rightarrow> v)"
| "get_index0 v = JUndefined"

section \<open>Errors (errors.js)\<close>

text \<open>
  The values the code under study throws, one constructor per class.  \<open>Error\<close> is the
  built-in class, \<open>TypeError\<close> what a property access on \<open>undefined\<close> or \<open>null\<close>
  throws.  \<open>APIError\<close> carries the message argument, the status and the response body;
  its subclasses fix the status (401, 429, 400).  \<open>ThrownUndefined\<close> is the value
  \<open>undefined\<close>, which \<open>throw lastError\<close> throws when no attempt has failed.
\<close>

datatype js_error =
    Error string
  | TypeError
  | ThrownUndefined
  | ModelPilotError string
  | APIError jsval nat jsval
  | AuthenticationError jsval
  | RateLimitError jsval
  | InvalidRequestError string string

text \<open>\<open>e instanceof APIError\<close> and \<open>e.status\<close> for such an \<open>e\<close>.\<close>

fun instanceof_APIError :: "js_error \<Rightarrow> bool" where
  "instanceof_APIError (APIError m s r) = True"
| "instanceof_APIError (AuthenticationError m) = True"
| "instanceof_APIError (RateLimitError m) = True"
| "instanceof_APIError (InvalidRequestError m p) = True"
| "instanceof_APIError e = False"

fun instanceof_AuthenticationError :: "js_error \<Rightarrow> bool" where
  "instanceof_AuthenticationError (AuthenticationError m) = True"
| "instanceof_AuthenticationError e = False"

fun instanceof_InvalidRequestError :: "js_error \<Rightarrow> bool" where
  "instanceof_InvalidRequestError (InvalidRequestError m p) = True"
| "instanceof_InvalidRequestError e = False"

fun error_status :: "js_error \<Rightarrow> nat option" where
  "error_status (APIError m s r) = Some s"
| "error_status (AuthenticationError m) = Some 401"
| "error_status (RateLimitError m) = Some 429"
| "error_status (InvalidRequestError m p) = Some 400"
| "error_status e = None"

fun instanceof_RateLimitError :: "js_error \<Rightarrow> bool" where
  "instanceof_RateLimitError (RateLimitError m) = True"
| "instanceof_RateLimitError e = False"

text \<open>
  \<open>e.param\<close>.  The constructor of \<open>APIError\<close> reads it from the response body
  (\<open>response?.error?.param\<close>); \<open>AuthenticationError\<close> and \<open>RateLimitError\<close> pass no
  response; \<open>InvalidRequestError\<close> stores its own argument; \<open>ModelPilotError\<close> is built
  without options by the code under study, and the built-in errors have no such
  property.  (For a thrown \<open>undefined\<close> there is no object to read.)
\<close>

fun error_param :: "js_error \<Rightarrow> jsval" where
  "error_param (APIError m s r) =
     (if nullish r \<or> nullish (get_prop r ''error'') then JUndefined
      else get_prop (get_prop r ''error'') ''param'')"
| "error_param (InvalidRequestError m p) = JString p"
| "error_param e = JUndefined"

section \<open>Validators (utils.js)\<close>

text \<open>Decimal digits of an index, for the template strings of the messages.\<close>

fun digits :: "nat \<Rightarrow> nat \<Rightarrow> string" where
  "digits 0 n = []"
| "digits (Suc fuel) n =
     (if n < 10 then [char_of (48 + n)]
      else digits fuel (n div 10) @ [char_of (48 + n mod 10)])"

definition show_index :: "nat \<Rightarrow> string" where
  "show_index n = digits (Suc n) n"

definition roles :: "jsval list" where
  "roles = [JString ''system'', JString ''user'', JString ''assistant'',
            JString ''function'', JString ''tool'']"

text \<open>The body of the loop of \<open>validateMessages\<close> for one entry.\<close>

definition validateMessage :: "nat \<Rightarrow> jsval \<Rightarrow> js_error option" where
  "validateMessage index message =
     (if \<not> truthy message \<or> \<not> typeof_object message then
        Some (Error (''messages['' @ show_index index @ ''] must be an object''))
      else if \<not> truthy (get_prop message ''role'') then
        Some (Error (''messages['' @ show_index index @ ''].role is required''))
      else if get_prop message ''role'' \<notin> set roles then
        Some (Error (''messages['' @ show_index index
          @ ''].role must be one of: system, user, assistant, function, tool''))
      else if \<not> truthy (get_prop message ''content'')
            \<and> \<not> truthy (get_prop message ''function_call'')
            \<and> \<not> truthy (get_prop message ''tool_calls'') then
        Some (Error (''messages['' @ show_index index
          @ ''].content is required when role is not function or tool''))
      else None)"

text \<open>A \<open>for\<close> loop over \<open>entries()\<close> that stops at the first throw.\<close>

fun for_entries :: "(nat \<Rightarrow> jsval \<Rightarrow> js_error option) \<Rightarrow> nat \<Rightarrow> jsval list \<Rightarrow> js_error option" where
  "for_entries body index [] = None"
| "for_entries body index (x # xs) =
     (case body index x of Some e \<Rightarrow> Some e | None \<Rightarrow> for_entries body (Suc index) xs)"

fun validateMessages :: "jsval \<Rightarrow> js_error option" where
  "validateMessages (JArray ms) =
     (if length ms = 0 then Some (Error ''messages array cannot be empty'')
      else for_entries validateMessage 0 ms)"
| "validateMessages v = Some (Error ''messages must be an array'')"

definition validateFunction :: "nat \<Rightarrow> jsval \<Rightarrow> js_error option" where
  "validateFunction index func =
     (if \<not> truthy func \<or> \<not> typeof_object func then
        Some (Error (''functions['' @ show_index index @ ''] must be an object''))
      else if \<not> truthy (get_prop func ''name'') \<or> \<not> typeof_string (get_prop func ''name'') then
        Some (Error (''functions['' @ show_index index
          @ ''].name is required and must be a string''))
      else if truthy (get_prop func ''description'')
            \<and> \<not> typeof_string (get_prop func ''description'') then
        Some (Error (''functions['' @ show_index index @ ''].description must be a string''))
      else if truthy (get_prop func ''parameters'')
            \<and> \<not> typeof_object (get_prop func ''parameters'') then
        Some (Error (''functions['' @ show_index index @ ''].parameters must be an object''))
      else None)"

fun validateFunctions :: "jsval \<Rightarrow> js_error option" where
  "validateFunctions (JArray fs) = for_entries validateFunction 0 fs"
| "validateFunctions v = Some (Error ''functions must be an array'')"

definition validateTool :: "nat \<Rightarrow> jsval \<Rightarrow> js_error option" where
  "validateTool index tool =
     (if \<not> truthy tool \<or> \<not> typeof_object tool then
        Some (Error (''tools['' @ show_index index @ ''] must be an object''))
      else if \<not> truthy (get_prop tool ''type'') then
        Some (Error (''tools['' @ show_index index @ ''].type is required''))
      else if get_prop tool ''type'' = JString ''function'' then
        (if \<not> truthy (get_prop tool ''function'') then
           Some (Error (''tools['' @ show_index index
             @ ''].function is required when type is '' @ [CHR 0x27] @ ''function''
             @ [CHR 0x27]))
         else validateFunctions (JArray [get_prop tool ''function'']))
      else None)"

fun validateTools :: "jsval \<Rightarrow> js_error option" where
  "validateTools (JArray ts) = for_entries validateTool 0 ts"
| "validateTools v = Some (Error ''tools must be an array'')"

section \<open>Client configuration (utils.js, index.js)\<close>

definition validateConfig :: "jsval \<Rightarrow> js_error + jsval" where
  "validateConfig config =
     (if nullish config then Inl TypeError
      else if \<not> truthy (get_prop config ''apiKey'') then
        Inl (Error ''ModelPilot API key is required. Get one at https://modelpilot.co'')
      else if \<not> typeof_string (get_prop config ''apiKey'') then
        Inl (Error ''API key must be a string'')
      else if truthy (get_prop config ''baseURL'')
            \<and> \<not> typeof_string (get_prop config ''baseURL'') then
        Inl (Error ''baseURL must be a string'')
      else if truthy (get_prop config ''timeout'')
            \<and> (case get_prop config ''timeout'' of JNumber q \<Rightarrow> q \<le> 0 | _ \<Rightarrow> True) then
        Inl (Error ''timeout must be a positive number'')
      else if truthy (get_prop config ''maxRetries'')
            \<and> (case get_prop config ''maxRetries'' of JNumber q \<Rightarrow> q < 0 | _ \<Rightarrow> True) then
        Inl (Error ''maxRetries must be a non-negative number'')
      else Inr config)"

text \<open>
  The fields of a constructed client.  \<open>validateConfig\<close> has let through only a
  non-empty string as \<open>apiKey\<close>, a string or a falsy value as \<open>baseURL\<close>, a number or a
  falsy value as \<open>timeout\<close> and \<open>maxRetries\<close>, so these fields have the types below;
  \<open>routerId\<close> and \<open>defaultHeaders\<close> are not checked and may hold any truthy value.
\<close>

record client =
  apiKey :: string
  baseURL :: string
  routerId :: jsval
  timeout :: rat
  defaultHeaders :: jsval
  maxRetries :: rat

text \<open>\<open>v || d\<close> for a field that holds a number, respectively a string, when truthy.\<close>

fun number_or :: "jsval \<Rightarrow> rat \<Rightarrow> rat" where
  "number_or (JNumber q) d = (if q \<noteq> 0 then q else d)"
| "number_or v d = d"

fun string_or :: "jsval \<Rightarrow> string \<Rightarrow> string" where
  "string_or (JString s) d = (if s \<noteq> [] then s else d)"
| "string_or v d = d"

definition startsWith_mp :: "string \<Rightarrow> bool" where
  "startsWith_mp s = (take 3 s = ''mp_'')"

text \<open>The constructor of \<open>ModelPilot\<close>; \<open>config\<close> defaults to \<open>{}\<close>.\<close>

definition ModelPilot :: "jsval \<Rightarrow> js_error + client" where
  "ModelPilot config0 =
     (let config = (if config0 = JUndefined then JObject [] else config0) in
      case validateConfig config of
        Inl e \<Rightarrow> Inl e
      | Inr validatedConfig \<Rightarrow>
          let c = \<lparr> apiKey = string_or (get_prop validatedConfig ''apiKey'') [],
                    baseURL = string_or (get_prop validatedConfig ''baseURL'')
                                ''https://your-firebase-project.cloudfunctions.net'',
                    routerId = js_or (get_prop validatedConfig ''routerId'') (JString ''default''),
                    timeout = number_or (get_prop validatedConfig ''timeout'') 30000,
                    defaultHeaders = js_or (get_prop validatedConfig ''defaultHeaders'') (JObject []),
                    maxRetries = number_or (get_prop validatedConfig ''maxRetries'') 3 \<rparr>
          in if \<not> startsWith_mp (apiKey c) then
               Inl (Error (''Invalid ModelPilot API key format. API key must start with ''
                 @ [CHR 0x22] @ ''mp_'' @ [CHR 0x22]
                 @ ''. Get your API key from https://modelpilot.co''))
             else Inr c)"

section \<open>Transport (index.js)\<close>

text \<open>
  What one call of the axios instance comes to before the interceptors run: a response
  that resolves with its \<open>data\<close> (a parsed body, or the chunks of a stream when the
  response type is \<open>stream\<close>), or a rejection that carries a \<open>response\<close> (status and
  body), only a \<open>request\<close>, or neither (the request was never sent).
\<close>

datatype response_data = Body jsval | ByteStream "string list"

datatype axios_failure =
    WithResponse nat jsval
  | WithRequest
  | SetupFailure string

datatype axios_outcome = Resolved response_data | Rejected axios_failure

text \<open>\<open>_handleError\<close>: the value it throws.  \<open>data.message\<close> itself throws when \<open>data\<close>
  is \<open>null\<close> or \<open>undefined\<close>.\<close>

fun handleError :: "axios_failure \<Rightarrow> js_error" where
  "handleError (WithResponse status data) =
     (if nullish data then TypeError
      else if status = 401 then
        AuthenticationError (js_or (get_prop data ''message'') (JString ''Invalid API key''))
      else if status = 429 then
        RateLimitError (js_or (get_prop data ''message'') (JString ''Rate limit exceeded''))
      else if status = 400 then
        APIError (js_or (get_prop data ''message'') (JString ''Bad request'')) status data
      else if status = 422 then
        APIError (js_or (get_prop data ''message'') (JString ''Bad request'')) status data
      else
        APIError (js_or (get_prop data ''message'') (JString ''API error'')) status data)"
| "handleError WithRequest = ModelPilotError ''Network error: No response received''"
| "handleError (SetupFailure message) = ModelPilotError (''Request error: '' @ message)"

text \<open>
  One call of \<open>this.httpClient\<close>: the request interceptor (\<open>buildHeaders\<close>, which throws
  on a key without the prefix, a rejection that reaches \<open>_handleError\<close> as a set-up
  failure), the call itself, and the response interceptor.
\<close>

definition httpClient :: "client \<Rightarrow> axios_outcome \<Rightarrow> js_error + response_data" where
  "httpClient c outcome =
     (if \<not> startsWith_mp (apiKey c) then
        Inl (handleError (SetupFailure (''Invalid ModelPilot API key format. API key must start with ''
               @ [CHR 0x22] @ ''mp_'' @ [CHR 0x22])))
      else case outcome of
             Resolved d \<Rightarrow> Inr d
           | Rejected f \<Rightarrow> Inl (handleError f))"

text \<open>The test that stops the retries: \<open>error instanceof AuthenticationError ||
  (error instanceof APIError && error.status < 500)\<close>.\<close>

definition no_retry :: "js_error \<Rightarrow> bool" where
  "no_retry error =
     (instanceof_AuthenticationError error
      \<or> (instanceof_APIError error \<and> (case error_status error of Some s \<Rightarrow> s < 500 | None \<Rightarrow> False)))"

text \<open>\<open>Math.min(1000 * Math.pow(2, attempt), 10000)\<close>.\<close>

definition backoff :: "nat \<Rightarrow> nat" where
  "backoff attempt = min (1000 * 2 ^ attempt) 10000"

text \<open>
  The loop of \<open>request\<close>.  The network is the function that gives the outcome of the
  call made at each attempt.  The state is the attempt counter, \<open>lastError\<close> and the
  delays slept so far; the result is what \<open>request\<close> returns or throws, the number of
  calls made and the delays.
\<close>

function request_loop ::
  "client \<Rightarrow> (nat \<Rightarrow> axios_outcome) \<Rightarrow> nat \<Rightarrow> js_error \<Rightarrow> nat list
     \<Rightarrow> (js_error + response_data) \<times> nat \<times> nat list" where
  "request_loop c net attempt lastError delays =
     (if of_nat attempt \<le> maxRetries c then
        (case httpClient c (net attempt) of
           Inr d \<Rightarrow> (Inr d, Suc attempt, delays)
         | Inl error \<Rightarrow>
             if no_retry error then (Inl error, Suc attempt, delays)
             else if of_nat attempt = maxRetries c then (Inl error, Suc attempt, delays)
             else request_loop c net (Suc attempt) error (delays @ [backoff attempt]))
      else (Inl lastError, attempt, delays))"
  by pat_completeness auto
termination
proof (relation "measure (\<lambda>(c, net, attempt, lastError, delays).
                   Suc (nat \<lfloor>maxRetries c\<rfloor>) - attempt)")
  show "wf (measure (\<lambda>(c, net, attempt, lastError, delays). Suc (nat \<lfloor>maxRetries c\<rfloor>) - attempt))"
    by simp
next
  fix c :: client and net :: "nat \<Rightarrow> axios_outcome" and attempt :: nat
    and lastError :: js_error and delays :: "nat list" and x :: "js_error + response_data"
    and error :: js_error
  assume le: "of_nat attempt \<le> maxRetries c"
  have "int attempt \<le> \<lfloor>maxRetries c\<rfloor>"
    using le by (simp add: le_floor_iff)
  then have "attempt \<le> nat \<lfloor>maxRetries c\<rfloor>"
    by linarith
  then show "((c, net, Suc attempt, error, delays @ [backoff attempt]),
              (c, net, attempt, lastError, delays))
             \<in> measure (\<lambda>(c, net, attempt, lastError, delays). Suc (nat \<lfloor>maxRetries c\<rfloor>) - attempt)"
    by simp
qed

declare request_loop.simps [simp del]

definition request :: "client \<Rightarrow> (nat \<Rightarrow> axios_outcome) \<Rightarrow> (js_error + response_data) \<times> nat \<times> nat list" where
  "request c net = request_loop c net 0 ThrownUndefined []"

section \<open>Chat completions (chat.js)\<close>

text \<open>The checks at the head of \<open>create\<close>, in the order of the source; the result is
  the first error thrown, if any.\<close>

definition validateParams :: "jsval \<Rightarrow> js_error option" where
  "validateParams params =
     (if \<not> truthy (get_prop params ''messages'') then
        Some (InvalidRequestError ''messages is required'' ''messages'')
      else case validateMessages (get_prop params ''messages'') of
        Some e \<Rightarrow> Some e
      | None \<Rightarrow>
     (case (if truthy (get_prop params ''functions'')
            then validateFunctions (get_prop params ''functions'') else None) of
        Some e \<Rightarrow> Some e
      | None \<Rightarrow>
     (case (if truthy (get_prop params ''tools'')
            then validateTools (get_prop params ''tools'') else None) of
        Some e \<Rightarrow> Some e
      | None \<Rightarrow>
      if truthy (get_prop params ''max_tokens'')
         \<and> (case get_prop params ''max_tokens'' of JNumber q \<Rightarrow> q \<le> 0 | _ \<Rightarrow> True) then
        Some (InvalidRequestError ''max_tokens must be a positive number'' ''max_tokens'')
      else if truthy (get_prop params ''temperature'')
         \<and> (case get_prop params ''temperature'' of JNumber q \<Rightarrow> q < 0 \<or> q > 2 | _ \<Rightarrow> True) then
        Some (InvalidRequestError ''temperature must be between 0 and 2'' ''temperature'')
      else if truthy (get_prop params ''top_p'')
         \<and> (case get_prop params ''top_p'' of JNumber q \<Rightarrow> q \<le> 0 \<or> q > 1 | _ \<Rightarrow> True) then
        Some (InvalidRequestError ''top_p must be between 0 and 1'' ''top_p'')
      else None)))"

text \<open>\<open>if (params.k !== undefined) optional.k = params.k\<close>.\<close>

definition copy_defined :: "jsval \<Rightarrow> string \<Rightarrow> (string \<times> jsval) list" where
  "copy_defined params k =
     (if get_prop params k \<noteq> JUndefined then [(k, get_prop params k)] else [])"

text \<open>\<open>_buildOptionalParams\<close>: the properties of \<open>optional\<close>, in the order they are
  assigned.\<close>

definition buildOptionalParams :: "jsval \<Rightarrow> (string \<times> jsval) list" where
  "buildOptionalParams params =
     (if truthy (get_prop params ''model'') then [(''model'', get_prop params ''model'')] else [])
     @ copy_defined params ''max_tokens''
     @ copy_defined params ''temperature''
     @ copy_defined params ''top_p''
     @ copy_defined params ''frequency_penalty''
     @ copy_defined params ''presence_penalty''
     @ copy_defined params ''stop''
     @ copy_defined params ''functions''
     @ copy_defined params ''function_call''
     @ copy_defined params ''tools''
     @ copy_defined params ''tool_choice''
     @ copy_defined params ''response_format''
     @ copy_defined params ''user''
     @ copy_defined params ''stream''"

text \<open>
  One call of \<open>this.httpClient\<close> as the network sees it: the router in the path
  \<open>/router/${routerId}\<close>, the method, the body and whether a stream was asked for.
\<close>

record wire_request =
  router :: jsval
  http_method :: string
  payload :: jsval
  stream_response :: bool

datatype create_result = Completion response_data | ChatCompletionStream response_data

text \<open>\<open>_createCompletion\<close> goes through \<open>request\<close>, which may call several times;
  \<open>_createStreamingCompletion\<close> calls the instance once.  Both return their result
  together with the calls made.\<close>

definition createCompletion ::
  "client \<Rightarrow> (nat \<Rightarrow> axios_outcome) \<Rightarrow> jsval \<Rightarrow> (js_error + create_result) \<times> wire_request list" where
  "createCompletion c net data =
     (case request c net of
        (result, attempts, delays) \<Rightarrow>
          (case result of Inl e \<Rightarrow> Inl e | Inr d \<Rightarrow> Inr (Completion d),
           replicate attempts \<lparr> router = routerId c, http_method = ''POST'',
                                 payload = data, stream_response = False \<rparr>))"

definition createStreamingCompletion ::
  "client \<Rightarrow> (nat \<Rightarrow> axios_outcome) \<Rightarrow> jsval \<Rightarrow> (js_error + create_result) \<times> wire_request list" where
  "createStreamingCompletion c net data =
     (case httpClient c (net 0) of Inl e \<Rightarrow> Inl e | Inr d \<Rightarrow> Inr (ChatCompletionStream d),
      [\<lparr> router = routerId c, http_method = ''POST'',
         payload = data, stream_response = True \<rparr>])"

text \<open>The object literal \<open>{messages: params.messages, routerId: this.client.routerId,
  ...this._buildOptionalParams(params)}\<close>.\<close>

definition requestPayload :: "client \<Rightarrow> jsval \<Rightarrow> jsval" where
  "requestPayload c params =
     JObject ([(''messages'', get_prop params ''messages''), (''routerId'', routerId c)]
              @ buildOptionalParams params)"

definition create ::
  "client \<Rightarrow> (nat \<Rightarrow> axios_outcome) \<Rightarrow> jsval \<Rightarrow> (js_error + create_result) \<times> wire_request list" where
  "create c net params =
     (if nullish params then (Inl TypeError, [])
      else case validateParams params of
        Some e \<Rightarrow> (Inl e, [])
      | None \<Rightarrow>
          if truthy (get_prop params ''stream'')
          then createStreamingCompletion c net (requestPayload c params)
          else createCompletion c net (requestPayload c params))"

section \<open>JSON texts\<close>

text \<open>
  A reader for the JSON grammar (ECMA-404), used below where the behaviour of the
  decoder is computed on concrete input.  It yields the value that \<open>JSON.parse\<close> builds:
  of two members with one name the later value is kept, at the place of the first.
  Numbers keep their exact decimal value.  An escape \<open>\uXXXX\<close> above \<open>00FF\<close> denotes a
  code unit that the string type here does not hold; such a text is outside the model
  and the reader gives no value for it.
\<close>

definition is_json_ws :: "char \<Rightarrow> bool" where
  "is_json_ws c = (c \<in> set [CHR 0x20, CHR 0x09, CHR 0x0A, CHR 0x0D])"

definition skip_ws :: "string \<Rightarrow> string" where
  "skip_ws s = dropWhile is_json_ws s"

definition is_digit :: "char \<Rightarrow> bool" where
  "is_digit c = (48 \<le> (of_char c :: nat) \<and> (of_char c :: nat) \<le> 57)"

definition digits_val :: "string \<Rightarrow> nat" where
  "digits_val ds = foldl (\<lambda>a c. 10 * a + (of_char c - 48)) 0 ds"

definition hex_val :: "char \<Rightarrow> nat option" where
  "hex_val c =
     (let n = (of_char c :: nat) in
      if 48 \<le> n \<and> n \<le> 57 then Some (n - 48)
      else if 65 \<le> n \<and> n \<le> 70 then Some (n - 55)
      else if 97 \<le> n \<and> n \<le> 102 then Some (n - 87)
      else None)"

definition unescape :: "char \<Rightarrow> char option" where
  "unescape e =
     (if e = CHR 0x22 then Some (CHR 0x22)
      else if e = CHR 0x5C then Some (CHR 0x5C)
      else if e = CHR ''/'' then Some (CHR ''/'')
      else if e = CHR ''b'' then Some (CHR 0x08)
      else if e = CHR ''f'' then Some (CHR 0x0C)
      else if e = CHR ''n'' then Some (CHR 0x0A)
      else if e = CHR ''r'' then Some (CHR 0x0D)
      else if e = CHR ''t'' then Some (CHR 0x09)
      else None)"

definition cons_result :: "'a \<Rightarrow> ('a list \<times> string) option \<Rightarrow> ('a list \<times> string) option" where
  "cons_result x r = (case r of None \<Rightarrow> None | Some (xs, rest) \<Rightarrow> Some (x # xs, rest))"

text \<open>The characters of a string after its opening quote; the rest of the input
  starts after the closing quote.\<close>

fun parse_chars :: "string \<Rightarrow> (string \<times> string) option" where
  "parse_chars [] = None"
| "parse_chars (c # cs) =
     (if c = CHR 0x22 then Some ([], cs)
      else if c = CHR 0x5C then
        (case cs of
           [] \<Rightarrow> None
         | e # es \<Rightarrow>
             if e = CHR ''u'' then
               (case es of
                  h1 # h2 # h3 # h4 # rest \<Rightarrow>
                    (case (hex_val h1, hex_val h2, hex_val h3, hex_val h4) of
                       (Some a, Some b, Some c', Some d) \<Rightarrow>
                         if ((a * 16 + b) * 16 + c') * 16 + d < 256
                         then cons_result (char_of (((a * 16 + b) * 16 + c') * 16 + d))
                                (parse_chars rest)
                         else None
                     | _ \<Rightarrow> None)
                | _ \<Rightarrow> None)
             else (case unescape e of
                     None \<Rightarrow> None
                   | Some ch \<Rightarrow> cons_result ch (parse_chars es)))
      else if (of_char c :: nat) < 32 then None
      else cons_result c (parse_chars cs))"

text \<open>A number: optional minus, integer part without leading zero, optional
  fraction, optional exponent.\<close>

definition parse_number :: "string \<Rightarrow> (rat \<times> string) option" where
  "parse_number s =
     (let neg = (take 1 s = ''-'');
          s1 = (if neg then drop 1 s else s);
          ip = (if take 1 s1 = ''0'' then ''0'' else takeWhile is_digit s1);
          s2 = drop (length ip) s1;
          has_frac = (take 1 s2 = ''.'');
          fp = (if has_frac then takeWhile is_digit (drop 1 s2) else []);
          s3 = (if has_frac then dropWhile is_digit (drop 1 s2) else s2);
          has_exp = (take 1 s3 = ''e'' \<or> take 1 s3 = ''E'');
          s4 = (if has_exp then drop 1 s3 else s3);
          eneg = (has_exp \<and> take 1 s4 = ''-'');
          s5 = (if has_exp \<and> (take 1 s4 = ''-'' \<or> take 1 s4 = ''+'') then drop 1 s4 else s4);
          ep = (if has_exp then takeWhile is_digit s5 else []);
          s6 = (if has_exp then dropWhile is_digit s5 else s5);
          mantissa = (of_nat (digits_val ip) + of_nat (digits_val fp) / 10 ^ length fp :: rat);
          scaled = (if eneg then mantissa / 10 ^ digits_val ep else mantissa * 10 ^ digits_val ep)
      in if ip = [] \<or> (has_frac \<and> fp = []) \<or> (has_exp \<and> ep = []) then None
         else Some (if neg then - scaled else scaled, s6))"

text \<open>Assignment of a member to the object under construction.\<close>

fun set_member :: "string \<Rightarrow> jsval \<Rightarrow> (string \<times> jsval) list \<Rightarrow> (string \<times> jsval) list" where
  "set_member k v [] = [(k, v)]"
| "set_member k v ((k', v') # kvs) =
     (if k' = k then (k, v) # kvs else (k', v') # set_member k v kvs)"

definition object_of :: "(string \<times> jsval) list \<Rightarrow> jsval" where
  "object_of members = JObject (foldl (\<lambda>kvs (k, v). set_member k v kvs) [] members)"

text \<open>
  Values, the elements of an array after \<open>[\<close>, the members of an object after \<open>{\<close>.
  The first argument bounds the number of nested calls; \<open>JSON_parse\<close> starts with one
  more than the length of the text.
\<close>

fun parse_value :: "nat \<Rightarrow> string \<Rightarrow> (jsval \<times> string) option"
  and parse_elements :: "nat \<Rightarrow> string \<Rightarrow> (jsval list \<times> string) option"
  and parse_members :: "nat \<Rightarrow> string \<Rightarrow> ((string \<times> jsval) list \<times> string) option" where
  "parse_value 0 s = None"
| "parse_value (Suc n) s =
     (if take 1 s = ''{'' then
        (if take 1 (skip_ws (drop 1 s)) = ''}'' then Some (JObject [], drop 1 (skip_ws (drop 1 s)))
         else (case parse_members n (skip_ws (drop 1 s)) of
                 None \<Rightarrow> None
               | Some (members, rest) \<Rightarrow> Some (object_of members, rest)))
      else if take 1 s = ''['' then
        (if take 1 (skip_ws (drop 1 s)) = '']'' then Some (JArray [], drop 1 (skip_ws (drop 1 s)))
         else (case parse_elements n (skip_ws (drop 1 s)) of
                 None \<Rightarrow> None
               | Some (elements, rest) \<Rightarrow> Some (JArray elements, rest)))
      else if take 1 s = [CHR 0x22] then
        (case parse_chars (drop 1 s) of
           None \<Rightarrow> None
         | Some (str, rest) \<Rightarrow> Some (JString str, rest))
      else if take 4 s = ''true'' then Some (JBool True, drop 4 s)
      else if take 5 s = ''false'' then Some (JBool False, drop 5 s)
      else if take 4 s = ''null'' then Some (JNull, drop 4 s)
      else (case parse_number s of
              None \<Rightarrow> None
            | Some (q, rest) \<Rightarrow> Some (JNumber q, rest)))"
| "parse_elements 0 s = None"
| "parse_elements (Suc n) s =
     (case parse_value n s of
        None \<Rightarrow> None
      | Some (v, rest) \<Rightarrow>
          if take 1 (skip_ws rest) = '','' then
            cons_result v (parse_elements n (skip_ws (drop 1 (skip_ws rest))))
          else if take 1 (skip_ws rest) = '']'' then Some ([v], drop 1 (skip_ws rest))
          else None)"
| "parse_members 0 s = None"
| "parse_members (Suc n) s =
     (if take 1 s = [CHR 0x22] then
        (case parse_chars (drop 1 s) of
           None \<Rightarrow> None
         | Some (k, rest) \<Rightarrow>
             if take 1 (skip_ws rest) = '':'' then
               (case parse_value n (skip_ws (drop 1 (skip_ws rest))) of
                  None \<Rightarrow> None
                | Some (v, rest') \<Rightarrow>
                    if take 1 (skip_ws rest') = '','' then
                      cons_result (k, v) (parse_members n (skip_ws (drop 1 (skip_ws rest'))))
                    else if take 1 (skip_ws rest') = ''}'' then
                      Some ([(k, v)], drop 1 (skip_ws rest'))
                    else None)
             else None)
      else None)"

definition JSON_parse :: "string \<Rightarrow> jsval option" where
  "JSON_parse s =
     (case parse_value (Suc (length s)) (skip_ws s) of
        None \<Rightarrow> None
      | Some (v, rest) \<Rightarrow> if skip_ws rest = [] then Some v else None)"

section \<open>Stream decoder (utils.js, chat.js)\<close>

text \<open>\<open>String.prototype.split('\n')\<close>: the pieces between the line feeds, at least one.\<close>

fun split_nl :: "string \<Rightarrow> string list" where
  "split_nl [] = [[]]"
| "split_nl (c # cs) =
     (if c = CHR 0x0A then [] # split_nl cs
      else (case split_nl cs of [] \<Rightarrow> [[c]] | l # ls \<Rightarrow> (c # l) # ls))"

text \<open>\<open>String.prototype.trim\<close>: white space and line terminators among the code units
  below 256 are tab, line feed, vertical tab, form feed, carriage return, space and the
  no-break space.\<close>

definition is_space :: "char \<Rightarrow> bool" where
  "is_space c = (c \<in> set [CHR 0x09, CHR 0x0A, CHR 0x0B, CHR 0x0C, CHR 0x0D, CHR 0x20, CHR 0xA0])"

definition trim :: "string \<Rightarrow> string" where
  "trim s = rev (dropWhile is_space (rev (dropWhile is_space s)))"

text \<open>\<open>chunk.replace(/^data: /, '')\<close>.\<close>

definition strip_data :: "string \<Rightarrow> string" where
  "strip_data chunk = (if take 6 chunk = ''data: '' then drop 6 chunk else chunk)"

text \<open>
  \<open>extractStreamingText\<close>.  \<open>JSON.parse\<close> belongs to the platform and is a parameter:
  \<open>parse s\<close> is \<open>None\<close> when it throws.  Whatever is thrown inside the \<open>try\<close> block
  (by the parser, or by \<open>parsed.choices\<close> when the text is \<open>null\<close>) makes the function
  return \<open>null\<close>.
\<close>

definition extractStreamingText :: "(string \<Rightarrow> jsval option) \<Rightarrow> string \<Rightarrow> jsval" where
  "extractStreamingText parse chunk =
     (let cleanChunk = strip_data chunk in
      if trim cleanChunk = [] \<or> trim cleanChunk = ''[DONE]'' then JNull
      else case parse cleanChunk of
             None \<Rightarrow> JNull
           | Some parsed \<Rightarrow>
               if nullish parsed then JNull
               else if truthy (get_prop parsed ''choices'')
                     \<and> truthy (get_index0 (get_prop parsed ''choices'')) then
                 (let choice = get_index0 (get_prop parsed ''choices'') in
                  if truthy (get_prop choice ''delta'')
                     \<and> truthy (get_prop (get_prop choice ''delta'') ''content'') then
                    get_prop (get_prop choice ''delta'') ''content''
                  else if truthy (get_prop choice ''message'')
                     \<and> truthy (get_prop (get_prop choice ''message'') ''content'') then
                    get_prop (get_prop choice ''message'') ''content''
                  else JNull)
               else JNull)"

text \<open>The two object literals the iterator yields; \<open>now\<close> is the reading of
  \<open>Date.now()\<close>.\<close>

definition content_chunk :: "jsval \<Rightarrow> nat \<Rightarrow> jsval" where
  "content_chunk text now =
     JObject [(''choices'', JArray [JObject [(''delta'', JObject [(''content'', text)]),
                                             (''index'', JNumber 0),
                                             (''finish_reason'', JNull)]]),
              (''created'', JNumber (of_nat (now div 1000))),
              (''model'', JString ''modelpilot-routed''),
              (''object'', JString ''chat.completion.chunk'')]"

definition final_chunk :: "nat \<Rightarrow> jsval" where
  "final_chunk now =
     JObject [(''choices'', JArray [JObject [(''delta'', JObject []),
                                             (''index'', JNumber 0),
                                             (''finish_reason'', JString ''stop'')]]),
              (''created'', JNumber (of_nat (now div 1000))),
              (''model'', JString ''modelpilot-routed''),
              (''object'', JString ''chat.completion.chunk'')]"

text \<open>The texts one line, respectively a list of lines, makes the iterator yield: the
  body of the inner \<open>for\<close> loop (and of the block after the outer loop).\<close>

definition line_texts :: "(string \<Rightarrow> jsval option) \<Rightarrow> string \<Rightarrow> jsval list" where
  "line_texts parse line =
     (if trim line \<noteq> [] then
        (let text = extractStreamingText parse line in
         if text \<noteq> JNull then [text] else [])
      else [])"

definition lines_texts :: "(string \<Rightarrow> jsval option) \<Rightarrow> string list \<Rightarrow> jsval list" where
  "lines_texts parse lines = concat (map (line_texts parse) lines)"

text \<open>
  The outer loop over the chunks of the stream, each given as its \<open>toString()\<close>.  The
  state is \<open>this._buffer\<close>; the result is the texts yielded, in order, and the buffer
  left when the stream ends.
\<close>

fun stream_loop :: "(string \<Rightarrow> jsval option) \<Rightarrow> string \<Rightarrow> string list \<Rightarrow> jsval list \<times> string" where
  "stream_loop parse buffer [] = ([], buffer)"
| "stream_loop parse buffer (chunk # rest) =
     (let lines = split_nl (buffer @ chunk);
          (yielded, buffer') = stream_loop parse (last lines) rest
      in (lines_texts parse (butlast lines) @ yielded, buffer'))"

text \<open>All the texts of the content chunks: the loop, then the rest of the buffer.\<close>

definition stream_texts :: "(string \<Rightarrow> jsval option) \<Rightarrow> string list \<Rightarrow> jsval list" where
  "stream_texts parse chunks =
     (let (yielded, buffer) = stream_loop parse [] chunks
      in yielded @ line_texts parse buffer)"

text \<open>
  \<open>toArray\<close>: the whole sequence the iterator produces on a stream that ends.
  \<open>clock k\<close> is the reading of \<open>Date.now()\<close> when the chunk number \<open>k\<close> is built.
\<close>

definition toArray :: "(string \<Rightarrow> jsval option) \<Rightarrow> (nat \<Rightarrow> nat) \<Rightarrow> string list \<Rightarrow> jsval list" where
  "toArray parse clock chunks =
     (let texts = stream_texts parse chunks
      in map (\<lambda>(k, text). content_chunk text (clock k)) (enumerate 0 texts)
         @ [final_chunk (clock (length texts))])"

text \<open>
  \<open>text += v\<close> on a string: \<open>ToString\<close> of the value.  The decimal form of a number is
  the platform's and is a parameter.
\<close>

fun join_comma :: "string list \<Rightarrow> string" where
  "join_comma [] = []"
| "join_comma [s] = s"
| "join_comma (s # t # ss) = s @ '','' @ join_comma (t # ss)"

fun js_toString :: "(rat \<Rightarrow> string) \<Rightarrow> jsval \<Rightarrow> string" where
  "js_toString numstr JUndefined = ''undefined''"
| "js_toString numstr JNull = ''null''"
| "js_toString numstr (JBool b) = (if b then ''true'' else ''false'')"
| "js_toString numstr (JNumber q) = numstr q"
| "js_toString numstr (JString s) = s"
| "js_toString numstr (JArray xs) =
     join_comma (map (\<lambda>x. if x = JUndefined \<or> x = JNull then [] else js_toString numstr x) xs)"
| "js_toString numstr (JObject kvs) = ''[object Object]''"

text \<open>\<open>getText\<close>: the loop over the chunks of the iterator, which reads
  \<open>chunk.choices[0].delta.content\<close>.\<close>

definition chunk_choice :: "jsval \<Rightarrow> jsval" where
  "chunk_choice chunk = get_index0 (get_prop chunk ''choices'')"

definition chunk_content :: "jsval \<Rightarrow> jsval" where
  "chunk_content chunk = get_prop (get_prop (chunk_choice chunk) ''delta'') ''content''"

fun getText_loop :: "(rat \<Rightarrow> string) \<Rightarrow> string \<Rightarrow> jsval list \<Rightarrow> string" where
  "getText_loop numstr text [] = text"
| "getText_loop numstr text (chunk # chunks) =
     (if truthy (chunk_content chunk)
      then getText_loop numstr (text @ js_toString numstr (chunk_content chunk)) chunks
      else getText_loop numstr text chunks)"

definition getText :: "(rat \<Rightarrow> string) \<Rightarrow> (string \<Rightarrow> jsval option) \<Rightarrow> (nat \<Rightarrow> nat) \<Rightarrow> string list \<Rightarrow> string" where
  "getText numstr parse clock chunks = getText_loop numstr [] (toArray parse clock chunks)"

section \<open>Inputs taken from the test suite\<close>

text \<open>The client that \<open>new ModelPilot({apiKey: 'mp_test-api-key'})\<close> constructs, the
  messages and the always-successful transport that the tests use.\<close>

definition test_client :: client where
  "test_client = \<lparr> apiKey = ''mp_test-api-key'',
       baseURL = ''https://your-firebase-project.cloudfunctions.net'',
       routerId = JString ''default'', timeout = 30000, defaultHeaders = JObject [],
       maxRetries = 3 \<rparr>"

definition validMessages :: jsval where
  "validMessages = JArray [JObject [(''role'', JString ''user''), (''content'', JString ''Hello!'')]]"

definition mockSuccess :: "nat \<Rightarrow> axios_outcome" where
  "mockSuccess k = Resolved (Body (JObject [(''success'', JBool True)]))"

text \<open>The line \<open>data: {"choices":[{"delta":{"content":"..."}}]}\<close> and the three
  buffers of the streaming tests, each ending in two line feeds.\<close>

definition sse_line :: "string \<Rightarrow> string" where
  "sse_line content = ''data: {'' @ [CHR 0x22] @ ''choices'' @ [CHR 0x22] @ '':[{'' @ [CHR 0x22]
     @ ''delta'' @ [CHR 0x22] @ '':{'' @ [CHR 0x22] @ ''content'' @ [CHR 0x22] @ '':''
     @ [CHR 0x22] @ content @ [CHR 0x22] @ ''}}]}''"

definition mockStream :: "string list" where
  "mockStream = [sse_line ''Hello'' @ [CHR 0x0A, CHR 0x0A],
                 sse_line '' world'' @ [CHR 0x0A, CHR 0x0A],
                 ''data: [DONE]'' @ [CHR 0x0A, CHR 0x0A]]"

text \<open>The same characters cut once, inside the first JSON object; and a stream whose
  first line is not JSON.\<close>

definition mockStream_resplit :: "string list" where
  "mockStream_resplit = [take 17 (concat mockStream), drop 17 (concat mockStream)]"

definition malformedStream :: "string list" where
  "malformedStream = [''data: {oops'' @ [CHR 0x0A], sse_line ''Hello'' @ [CHR 0x0A]]"

text \<open>The line \<open>data: {"choices":[{"delta":{}}]}\<close>, which is JSON without content; a
  stream that has it after the line that is not JSON; and a clock that stands still.\<close>

definition noContentLine :: string where
  "noContentLine = ''data: {'' @ [CHR 0x22] @ ''choices'' @ [CHR 0x22] @ '':[{'' @ [CHR 0x22]
     @ ''delta'' @ [CHR 0x22] @ '':{}}]}''"

definition noContentStream :: "string list" where
  "noContentStream = [''data: {oops'' @ [CHR 0x0A], noContentLine @ [CHR 0x0A]]"

definition epoch_clock :: "nat \<Rightarrow> nat" where
  "epoch_clock k = 0"

text \<open>The names that \<open>_buildOptionalParams\<close> copies whenever the value is not
  \<open>undefined\<close>.\<close>

definition copied_names :: "string list" where
  "copied_names = [''max_tokens'', ''temperature'', ''top_p'', ''frequency_penalty'',
     ''presence_penalty'', ''stop'', ''functions'', ''function_call'', ''tools'',
     ''tool_choice'', ''response_format'', ''user'', ''stream'']"

section \<open>Request validation\<close>

lemma validMessages_ok: "validateMessages validMessages = None"
  by (simp add: validMessages_def validateMessage_def roles_def)

lemma truthy_validMessages: "truthy validMessages"
  by (simp add: validMessages_def)

lemma test_client_constructed:
  "ModelPilot (JObject [(''apiKey'', JString ''mp_test-api-key'')]) = Inr test_client"
  by (simp add: ModelPilot_def validateConfig_def nullish_def test_client_def js_or_def
        startsWith_mp_def)

lemma request_success_first:
  "request test_client mockSuccess = (Inr (Body (JObject [(''success'', JBool True)])), 1, [])"
  by (simp add: request_def request_loop.simps httpClient_def test_client_def startsWith_mp_def
        mockSuccess_def)

text \<open>What the checks of \<open>create\<close> do guarantee: an error of the validation is thrown
  before any call; a missing (or falsy) \<open>messages\<close> gives an \<open>InvalidRequestError\<close> with
  the parameter name; \<open>validateMessages\<close> only throws the built-in \<open>Error\<close>; a negative
  \<open>max_tokens\<close> is rejected with the parameter name.\<close>

lemma validation_failure_no_call:
  "\<not> nullish params \<Longrightarrow> validateParams params = Some e \<Longrightarrow> create c net params = (Inl e, [])"
  by (simp add: create_def)

lemma missing_messages_rejected:
  "\<not> truthy (get_prop params ''messages'') \<Longrightarrow> \<not> nullish params \<Longrightarrow>
   create c net params = (Inl (InvalidRequestError ''messages is required'' ''messages''), [])"
  by (simp add: create_def validateParams_def)

lemma validateMessage_plain: "validateMessage i m = Some e \<Longrightarrow> \<exists>msg. e = Error msg"
  by (auto simp: validateMessage_def split: if_splits)

lemma for_entries_plain:
  assumes "\<And>i x e. body i x = Some e \<Longrightarrow> \<exists>msg. e = Error msg"
  shows "for_entries body i xs = Some e \<Longrightarrow> \<exists>msg. e = Error msg"
  using assms by (induction xs arbitrary: i) (auto split: option.splits)

lemma validateMessages_plain: "validateMessages v = Some e \<Longrightarrow> \<exists>msg. e = Error msg"
proof (cases v)
  case (JArray ms)
  assume "validateMessages v = Some e"
  then show ?thesis
    using JArray for_entries_plain [of validateMessage 0 ms e] validateMessage_plain
    by (auto split: if_splits)
qed auto

lemma negative_max_tokens_rejected:
  assumes "\<not> nullish params" and "truthy (get_prop params ''messages'')"
    and "validateMessages (get_prop params ''messages'') = None"
    and "\<not> truthy (get_prop params ''functions'')" and "\<not> truthy (get_prop params ''tools'')"
    and "get_prop params ''max_tokens'' = JNumber q" and "q < 0"
  shows "create c net params
           = (Inl (InvalidRequestError ''max_tokens must be a positive number'' ''max_tokens''), [])"
  using assms by (simp add: create_def validateParams_def)

text \<open>
  C1.  The claim: with valid messages, \<open>max_tokens \<le> 0\<close>, a \<open>temperature\<close> outside
  [0,2] or a \<open>top_p\<close> outside (0,1] makes \<open>create\<close> fail with an InvalidRequest error
  and no network call, the boundary values \<open>max_tokens = 0\<close> and \<open>top_p = 0\<close> included.
  The code guards each range check by the truthiness of the value, and \<open>0\<close> is falsy:
  with \<open>top_p: 0\<close>, and with \<open>max_tokens: 0\<close>, \<open>create\<close> throws nothing, sends the
  request with the value in the payload and returns the response.
\<close>

theorem zero_sampling_parameter_accepted:
  "create test_client mockSuccess (JObject [(''messages'', validMessages), (''top_p'', JNumber 0)])
     = (Inr (Completion (Body (JObject [(''success'', JBool True)]))),
        [\<lparr> router = JString ''default'', http_method = ''POST'',
           payload = JObject [(''messages'', validMessages), (''routerId'', JString ''default''),
                              (''top_p'', JNumber 0)],
           stream_response = False \<rparr>])
   \<and> create test_client mockSuccess (JObject [(''messages'', validMessages), (''max_tokens'', JNumber 0)])
     = (Inr (Completion (Body (JObject [(''success'', JBool True)]))),
        [\<lparr> router = JString ''default'', http_method = ''POST'',
           payload = JObject [(''messages'', validMessages), (''routerId'', JString ''default''),
                              (''max_tokens'', JNumber 0)],
           stream_response = False \<rparr>])"
  by (simp add: create_def validateParams_def validMessages_ok truthy_validMessages nullish_def
        requestPayload_def buildOptionalParams_def copy_defined_def createCompletion_def
        request_success_first)
    (simp add: test_client_def)

text \<open>
  C2.  The claim: every invalid request (messages missing, empty or not an array, a
  bad role, missing content, a bad function or tool entry) makes \<open>create\<close> fail with an
  InvalidRequest error that carries the parameter name, before any network call.
  Only the test \<open>!params.messages\<close> throws \<open>InvalidRequestError\<close>; the validators of
  utils.js throw the built-in \<open>Error\<close>, which has no \<open>param\<close>.  On \<open>{messages: []}\<close>,
  for every client and network, \<open>create\<close> throws that plain error (and makes no call).
\<close>

theorem empty_messages_plain_error:
  "create c net (JObject [(''messages'', JArray [])])
     = (Inl (Error ''messages array cannot be empty''), [])
   \<and> \<not> instanceof_InvalidRequestError (Error ''messages array cannot be empty'')
   \<and> error_param (Error ''messages array cannot be empty'') = JUndefined"
  by (simp add: create_def validateParams_def nullish_def)

section \<open>Error classification\<close>

text \<open>
  C3, as stated: a response with status 400 or 422 maps to InvalidRequest.  It does
  not: \<open>_handleError\<close> throws the generic \<open>APIError\<close> for both.
\<close>

theorem bad_request_not_InvalidRequest:
  "\<not> instanceof_InvalidRequestError (handleError (WithResponse 400 (JObject [])))
   \<and> \<not> instanceof_InvalidRequestError (handleError (WithResponse 422 (JObject [])))"
  by (simp add: nullish_def)

text \<open>
  C3, amended.  For every error response whose body is neither \<open>null\<close> nor
  \<open>undefined\<close>: the error is an \<open>AuthenticationError\<close> exactly when the status is 401, a
  \<open>RateLimitError\<close> exactly when it is 429, never an \<open>InvalidRequestError\<close>, and for every
  other status (400 and 422 included) the generic \<open>APIError\<close> with that status and body;
  in all cases its status is the status of the response.  A request without response
  maps to a \<open>ModelPilotError\<close>, which has no status.
\<close>

theorem handleError_kinds:
  assumes "\<not> nullish data"
  shows "instanceof_AuthenticationError (handleError (WithResponse status data)) = (status = 401)
       \<and> instanceof_RateLimitError (handleError (WithResponse status data)) = (status = 429)
       \<and> \<not> instanceof_InvalidRequestError (handleError (WithResponse status data))
       \<and> (status \<noteq> 401 \<and> status \<noteq> 429 \<longrightarrow>
            (\<exists>m. handleError (WithResponse status data) = APIError m status data))
       \<and> error_status (handleError (WithResponse status data)) = Some status
       \<and> handleError WithRequest = ModelPilotError ''Network error: No response received''
       \<and> error_status (handleError WithRequest) = None"
  using assms by simp

theorem handleError_kinds_witness:
  "\<not> nullish (JObject [])
   \<and> handleError (WithResponse 400 (JObject [])) = APIError (JString ''Bad request'') 400 (JObject [])
   \<and> error_status (handleError (WithResponse 400 (JObject []))) = Some 400"
  using handleError_kinds [of "JObject []" 400] by (simp add: nullish_def js_or_def)

section \<open>The retry loop\<close>

text \<open>
  Which failures stop the loop at once: an error response with a status below 500 whose
  body is not \<open>null\<close> or \<open>undefined\<close>.  Everything else is retried.  Then two runs: two
  responses with status 500 followed by a success; and a response with status 401 and
  a body.  Last the loop in general: when \<open>maxRetries\<close> is not negative, at least one call
  is made and at most \<open>maxRetries\<close> more, what is returned or thrown is the outcome of the
  last call, and every call before the last failed with an error that is retried.
\<close>

lemma no_retry_handleError:
  "no_retry (handleError f) = (\<exists>s d. f = WithResponse s d \<and> \<not> nullish d \<and> s < 500)"
  by (cases f) (auto simp: no_retry_def)

lemma request_retry_then_success:
  assumes "startsWith_mp (apiKey c)" and "maxRetries c = 3"
    and "net 0 = Rejected (WithResponse 500 d0)" and "net (Suc 0) = Rejected (WithResponse 500 d1)"
    and "net (Suc (Suc 0)) = Resolved r"
  shows "request c net = (Inr r, 3, [1000, 2000])"
proof -
  have h: "httpClient c (Rejected (WithResponse 500 d)) = Inl (handleError (WithResponse 500 d))" for d
    using assms(1) by (simp add: httpClient_def)
  have nr: "\<not> no_retry (handleError (WithResponse 500 d))" for d
    by (simp add: no_retry_def)
  have s2: "request_loop c net (Suc (Suc 0)) e [1000, 2000] = (Inr r, 3, [1000, 2000])" for e
    using assms by (subst request_loop.simps) (simp add: httpClient_def)
  have s1: "request_loop c net (Suc 0) e [1000] = (Inr r, 3, [1000, 2000])" for e
    using assms(2,4) h [of d1] nr [of d1] s2
    by (subst request_loop.simps) (simp add: backoff_def del: handleError.simps)
  show ?thesis
    unfolding request_def
    using assms(2,3) h [of d0] nr [of d0] s1
    by (subst request_loop.simps) (simp add: backoff_def del: handleError.simps)
qed

lemma request_unauthorized_once:
  assumes "startsWith_mp (apiKey c)" and "0 \<le> maxRetries c"
    and "net 0 = Rejected (WithResponse 401 d)" and "\<not> nullish d"
  shows "request c net
           = (Inl (AuthenticationError (js_or (get_prop d ''message'') (JString ''Invalid API key''))),
              1, [])"
  unfolding request_def using assms
  by (subst request_loop.simps) (simp add: httpClient_def no_retry_def)

lemma request_loop_spec:
  assumes "request_loop c net a le ds = (res, n, ds')"
    and "0 < a \<longrightarrow> httpClient c (net (a - 1)) = Inl le"
  shows "a \<le> n \<and> n \<le> max a (Suc (nat \<lfloor>maxRetries c\<rfloor>))
       \<and> (0 < n \<longrightarrow> res = httpClient c (net (n - 1)))
       \<and> (\<forall>k. a \<le> k \<and> k < n - 1 \<longrightarrow> (\<exists>e. httpClient c (net k) = Inl e \<and> \<not> no_retry e))"
  using assms
proof (induction c net a le ds arbitrary: res n ds' rule: request_loop.induct)
  case (1 c net attempt lastError delays)
  note unfold = request_loop.simps [of c net attempt lastError delays]
  show ?case
  proof (cases "of_nat attempt \<le> maxRetries c")
    case False
    then have "res = Inl lastError" "n = attempt"
      using "1.prems"(1) unfold by simp_all
    then show ?thesis using "1.prems"(2) by auto
  next
    case True
    have "int attempt \<le> \<lfloor>maxRetries c\<rfloor>"
      using True by (simp add: le_floor_iff)
    then have bound: "attempt \<le> nat \<lfloor>maxRetries c\<rfloor>"
      by linarith
    show ?thesis
    proof (cases "httpClient c (net attempt)")
      case (Inr d)
      then have "res = Inr d" "n = Suc attempt"
        using "1.prems"(1) True unfold by simp_all
      then show ?thesis using Inr bound by auto
    next
      case (Inl error)
      show ?thesis
      proof (cases "no_retry error \<or> of_nat attempt = maxRetries c")
        case stop: True
        then have "res = Inl error" "n = Suc attempt"
          using "1.prems"(1) True Inl unfold by (auto split: if_splits)
        then show ?thesis using Inl bound by auto
      next
        case False
        then have rec: "request_loop c net (Suc attempt) error (delays @ [backoff attempt])
                          = (res, n, ds')"
          using "1.prems"(1) True Inl unfold by simp
        have ih: "Suc attempt \<le> n \<and> n \<le> max (Suc attempt) (Suc (nat \<lfloor>maxRetries c\<rfloor>))
           \<and> (0 < n \<longrightarrow> res = httpClient c (net (n - 1)))
           \<and> (\<forall>k. Suc attempt \<le> k \<and> k < n - 1
                  \<longrightarrow> (\<exists>e. httpClient c (net k) = Inl e \<and> \<not> no_retry e))"
          using "1.IH" [OF True Inl _ _ rec] False Inl by simp
        have "\<exists>e. httpClient c (net k) = Inl e \<and> \<not> no_retry e"
          if "attempt \<le> k" "k < n - 1" for k
        proof (cases "k = attempt")
          case True
          then show ?thesis using Inl False by simp
        next
          case False
          then show ?thesis using that ih by simp
        qed
        then show ?thesis using ih bound by (simp add: max_def)
      qed
    qed
  qed
qed

lemma request_spec:
  assumes "request c net = (res, n, ds)" and "0 \<le> maxRetries c"
  shows "0 < n \<and> n \<le> Suc (nat \<lfloor>maxRetries c\<rfloor>) \<and> res = httpClient c (net (n - 1))
       \<and> (\<forall>k < n - 1. \<exists>e. httpClient c (net k) = Inl e \<and> \<not> no_retry e)"
proof -
  have run: "request_loop c net 0 ThrownUndefined [] = (res, n, ds)"
    using assms(1) by (simp add: request_def)
  have spec: "n \<le> max 0 (Suc (nat \<lfloor>maxRetries c\<rfloor>))
       \<and> (0 < n \<longrightarrow> res = httpClient c (net (n - 1)))
       \<and> (\<forall>k. 0 \<le> k \<and> k < n - 1 \<longrightarrow> (\<exists>e. httpClient c (net k) = Inl e \<and> \<not> no_retry e))"
    using request_loop_spec [OF run] by simp
  have "0 < n"
  proof (cases "httpClient c (net 0)")
    case (Inr d)
    then show ?thesis
      using run assms(2) by (simp add: request_loop.simps [of c net 0])
  next
    case (Inl error)
    show ?thesis
    proof (cases "no_retry error \<or> 0 = maxRetries c")
      case True
      then show ?thesis
        using run assms(2) Inl by (auto simp: request_loop.simps [of c net 0] split: if_splits)
    next
      case False
      then have "request_loop c net (Suc 0) error ([] @ [backoff 0]) = (res, n, ds)"
        using run assms(2) Inl by (simp add: request_loop.simps [of c net 0])
      then show ?thesis
        using request_loop_spec [of c net "Suc 0" error "[] @ [backoff 0]" res n ds] Inl by simp
    qed
  qed
  then show ?thesis using spec by simp
qed

lemma constructed_client:
  assumes "ModelPilot config = Inr c"
  shows "0 < maxRetries c \<and> startsWith_mp (apiKey c)"
proof -
  let ?config = "if config = JUndefined then JObject [] else config"
  have valid: "validateConfig ?config = Inr ?config"
    using assms by (auto simp: ModelPilot_def Let_def validateConfig_def split: sum.splits if_splits)
  have c: "maxRetries c = number_or (get_prop ?config ''maxRetries'') 3" "startsWith_mp (apiKey c)"
    using assms valid by (auto simp: ModelPilot_def Let_def split: if_splits)
  have "0 < number_or (get_prop ?config ''maxRetries'') 3"
    using valid by (cases "get_prop ?config ''maxRetries''") (auto simp: validateConfig_def split: if_splits)
  then show ?thesis using c by simp
qed

text \<open>
  C4.  The claim: a transport that always fails with HTTP 401 is called exactly once
  and an Authentication error propagates.  When the body of the 401 response is \<open>null\<close>,
  \<open>data.message\<close> in \<open>_handleError\<close> throws a \<open>TypeError\<close> before the
  \<open>AuthenticationError\<close> is built; \<open>request\<close> does not recognise it as a client error
  and retries: four calls, three delays, and the \<open>TypeError\<close> is what it throws.
\<close>

theorem unauthorized_null_body_retried:
  "request test_client (\<lambda>k. Rejected (WithResponse 401 JNull))
     = (Inl TypeError, 4, [1000, 2000, 4000])"
  by (simp add: request_def request_loop.simps httpClient_def test_client_def startsWith_mp_def
        nullish_def no_retry_def backoff_def)

section \<open>Payload assembly and configuration\<close>

lemma map_of_copied:
  "map_of (concat (map (copy_defined params) names)) k
     = (if k \<in> set names \<and> get_prop params k \<noteq> JUndefined then Some (get_prop params k) else None)"
  by (induction names) (auto simp: copy_defined_def)

lemma keys_copied:
  "map fst (concat (map (copy_defined params) names))
     = filter (\<lambda>k. get_prop params k \<noteq> JUndefined) names"
  by (induction names) (auto simp: copy_defined_def)

lemma buildOptionalParams_eq:
  "buildOptionalParams params =
     (if truthy (get_prop params ''model'') then [(''model'', get_prop params ''model'')] else [])
     @ concat (map (copy_defined params) copied_names)"
  by (simp add: buildOptionalParams_def copied_names_def)

lemma distinct_copied_names: "distinct copied_names"
  by (simp add: copied_names_def)

lemma reserved_not_copied:
  "''messages'' \<notin> set copied_names" "''routerId'' \<notin> set copied_names"
  "''model'' \<notin> set copied_names"
  by (simp_all add: copied_names_def)

lemma requestPayload_map:
  "\<exists>kvs. requestPayload c params = JObject kvs \<and> distinct (map fst kvs)
     \<and> (\<forall>k. map_of kvs k =
           (if k = ''messages'' then Some (get_prop params ''messages'')
            else if k = ''routerId'' then Some (routerId c)
            else if k = ''model'' then
              (if truthy (get_prop params ''model'') then Some (get_prop params ''model'') else None)
            else if k \<in> set copied_names \<and> get_prop params k \<noteq> JUndefined then
              Some (get_prop params k)
            else None))"
  using reserved_not_copied distinct_copied_names
  by (auto simp: requestPayload_def buildOptionalParams_eq map_of_copied keys_copied
        map_add_def split: option.splits)

lemma create_calls:
  assumes "\<not> nullish params" and "validateParams params = None"
    and "r \<in> set (snd (create c net params))"
  shows "payload r = requestPayload c params"
  using assms
  by (auto simp: create_def createCompletion_def createStreamingCompletion_def
        split: prod.splits if_splits)

lemma create_makes_call:
  assumes "ModelPilot config = Inr c" and "\<not> nullish params" and "validateParams params = None"
  shows "snd (create c net params) \<noteq> []"
proof (cases "truthy (get_prop params ''stream'')")
  case True
  then show ?thesis using assms(2,3) by (simp add: create_def createStreamingCompletion_def)
next
  case False
  obtain res n ds where run: "request c net = (res, n, ds)"
    by (cases "request c net") auto
  have "0 < n"
    using request_spec [OF run] constructed_client [OF assms(1)] by simp
  then show ?thesis
    using False assms(2,3) run by (auto simp: create_def createCompletion_def)
qed

lemma router_default:
  assumes "ModelPilot config = Inr c"
  shows "routerId c = (if truthy (get_prop config ''routerId'') then get_prop config ''routerId''
                       else JString ''default'')"
  using assms
  by (auto simp: ModelPilot_def Let_def js_or_def validateConfig_def split: sum.splits if_splits)

text \<open>
  C8, as stated: an optional field appears in the payload if and only if it is present
  on the input.  It fails for \<open>model\<close>, which is copied only when truthy: with
  \<open>model: ''\<close> on a valid request the field is present on the input and absent from the
  payload that is sent.
\<close>

theorem falsy_model_dropped:
  "get_prop (JObject [(''messages'', validMessages), (''model'', JString [])]) ''model'' \<noteq> JUndefined
   \<and> create test_client mockSuccess (JObject [(''messages'', validMessages), (''model'', JString [])])
     = (Inr (Completion (Body (JObject [(''success'', JBool True)]))),
        [\<lparr> router = JString ''default'', http_method = ''POST'',
           payload = JObject [(''messages'', validMessages), (''routerId'', JString ''default'')],
           stream_response = False \<rparr>])"
  by (simp add: create_def validateParams_def validMessages_ok truthy_validMessages nullish_def
        requestPayload_def buildOptionalParams_def copy_defined_def createCompletion_def
        request_success_first)
    (simp add: test_client_def)

text \<open>
  C8, amended.  For a client built by the constructor and a request that passes the
  validation, the payload of every call that \<open>create\<close> makes is an object with distinct
  names that holds exactly: \<open>messages\<close>, as given; \<open>routerId\<close>, the configured one or
  \<open>"default"\<close> when none (or a falsy one) was configured; \<open>model\<close>, unmodified, if and
  only if its value on the input is truthy; and each of \<open>max_tokens\<close>, \<open>temperature\<close>,
  \<open>top_p\<close>, \<open>frequency_penalty\<close>, \<open>presence_penalty\<close>, \<open>stop\<close>, \<open>functions\<close>,
  \<open>function_call\<close>, \<open>tools\<close>, \<open>tool_choice\<close>, \<open>response_format\<close>, \<open>user\<close>, \<open>stream\<close>,
  unmodified, if and only if its value on the input is not \<open>undefined\<close>.
\<close>

theorem payload_fields:
  assumes "ModelPilot config = Inr c"
    and "\<not> nullish params" and "validateParams params = None"
  shows "snd (create c net params) \<noteq> []
     \<and> (\<forall>r \<in> set (snd (create c net params)).
          \<exists>kvs. payload r = JObject kvs \<and> distinct (map fst kvs)
            \<and> (\<forall>k. map_of kvs k =
                  (if k = ''messages'' then Some (get_prop params ''messages'')
                   else if k = ''routerId'' then
                     Some (if truthy (get_prop config ''routerId'') then get_prop config ''routerId''
                           else JString ''default'')
                   else if k = ''model'' then
                     (if truthy (get_prop params ''model'') then Some (get_prop params ''model'')
                      else None)
                   else if k \<in> set copied_names \<and> get_prop params k \<noteq> JUndefined then
                     Some (get_prop params k)
                   else None)))"
proof -
  obtain kvs where obj: "requestPayload c params = JObject kvs"
    and dist: "distinct (map fst kvs)"
    and look: "\<forall>k. map_of kvs k =
           (if k = ''messages'' then Some (get_prop params ''messages'')
            else if k = ''routerId'' then Some (routerId c)
            else if k = ''model'' then
              (if truthy (get_prop params ''model'') then Some (get_prop params ''model'') else None)
            else if k \<in> set copied_names \<and> get_prop params k \<noteq> JUndefined then
              Some (get_prop params k)
            else None)"
    using requestPayload_map [of c params] by blast
  have look': "\<forall>k. map_of kvs k =
           (if k = ''messages'' then Some (get_prop params ''messages'')
            else if k = ''routerId'' then
              Some (if truthy (get_prop config ''routerId'') then get_prop config ''routerId''
                    else JString ''default'')
            else if k = ''model'' then
              (if truthy (get_prop params ''model'') then Some (get_prop params ''model'') else None)
            else if k \<in> set copied_names \<and> get_prop params k \<noteq> JUndefined then
              Some (get_prop params k)
            else None)"
    using look unfolding router_default [OF assms(1)] .
  have sent: "payload r = JObject kvs" if "r \<in> set (snd (create c net params))" for r
    using create_calls [OF assms(2,3) that] obj by simp
  from sent dist look' create_makes_call [OF assms] show ?thesis by blast
qed

theorem payload_fields_witness:
  "ModelPilot (JObject [(''apiKey'', JString ''mp_test-api-key'')]) = Inr test_client
   \<and> validateParams (JObject [(''messages'', validMessages), (''max_tokens'', JNumber 100)]) = None
   \<and> snd (create test_client mockSuccess
             (JObject [(''messages'', validMessages), (''max_tokens'', JNumber 100)]))
       = [\<lparr> router = JString ''default'', http_method = ''POST'',
            payload = JObject [(''messages'', validMessages), (''routerId'', JString ''default''),
                               (''max_tokens'', JNumber 100)],
            stream_response = False \<rparr>]
   \<and> (\<exists>kvs. JObject [(''messages'', validMessages), (''routerId'', JString ''default''),
                      (''max_tokens'', JNumber 100)] = JObject kvs
          \<and> map_of kvs ''routerId'' = Some (JString ''default'')
          \<and> map_of kvs ''max_tokens'' = Some (JNumber 100)
          \<and> map_of kvs ''temperature'' = None)"
proof -
  let ?params = "JObject [(''messages'', validMessages), (''max_tokens'', JNumber 100)]"
  let ?r = "\<lparr> router = JString ''default'', http_method = ''POST'',
              payload = JObject [(''messages'', validMessages), (''routerId'', JString ''default''),
                                 (''max_tokens'', JNumber 100)],
              stream_response = False \<rparr>"
  have valid: "validateParams ?params = None"
    by (simp add: validateParams_def validMessages_ok truthy_validMessages)
  have calls: "snd (create test_client mockSuccess ?params) = [?r]"
    by (simp add: create_def valid nullish_def requestPayload_def buildOptionalParams_def
          copy_defined_def createCompletion_def request_success_first)
      (simp add: test_client_def)
  have nn: "\<not> nullish ?params"
    by (simp add: nullish_def)
  show ?thesis
    using payload_fields [OF test_client_constructed nn valid, of mockSuccess]
    by (simp add: test_client_constructed valid calls)
qed

text \<open>
  C10.  Whenever the constructor accepts a configuration whose \<open>maxRetries\<close> is the
  number \<open>n\<close>, that number is not negative and the client's \<open>maxRetries\<close> is \<open>n\<close> when
  \<open>n > 0\<close> and the default 3 when \<open>n = 0\<close>; the configuration with \<open>maxRetries: 0\<close> is
  accepted (below), so retries cannot be switched off this way.
\<close>

theorem maxRetries_zero_defaults:
  assumes "ModelPilot config = Inr c" and "get_prop config ''maxRetries'' = JNumber n"
  shows "0 \<le> n \<and> maxRetries c = (if n = 0 then 3 else n)"
proof -
  have ne: "config \<noteq> JUndefined"
    using assms(2) by auto
  have valid: "validateConfig config = Inr config"
    using assms(1) ne
    by (auto simp: ModelPilot_def Let_def validateConfig_def split: sum.splits if_splits)
  have "0 \<le> n"
    using valid assms(2) by (auto simp: validateConfig_def split: if_splits)
  moreover have "maxRetries c = number_or (JNumber n) 3"
    using assms ne valid by (auto simp: ModelPilot_def Let_def split: if_splits)
  ultimately show ?thesis by simp
qed

theorem maxRetries_zero_defaults_witness:
  "ModelPilot (JObject [(''apiKey'', JString ''mp_test-api-key''), (''maxRetries'', JNumber 0)])
     = Inr test_client
   \<and> maxRetries test_client = 3"
  using maxRetries_zero_defaults
          [of "JObject [(''apiKey'', JString ''mp_test-api-key''), (''maxRetries'', JNumber 0)]"
              test_client 0]
  by (simp add: ModelPilot_def validateConfig_def nullish_def test_client_def js_or_def
        startsWith_mp_def)

section \<open>Stream decoding\<close>

lemma split_nl_nonempty: "split_nl s \<noteq> []"
  by (induction s) (auto split: list.splits)

lemma split_nl_append:
  "split_nl (s @ t) = butlast (split_nl s) @ split_nl (last (split_nl s) @ t)"
proof (induction s)
  case Nil
  show ?case by simp
next
  case (Cons c cs)
  show ?case
  proof (cases "c = CHR 0x0A")
    case True
    then show ?thesis using Cons split_nl_nonempty [of cs] by simp
  next
    case False
    obtain l ls where sp: "split_nl cs = l # ls"
      using split_nl_nonempty [of cs] by (cases "split_nl cs") auto
    show ?thesis
    proof (cases ls)
      case Nil
      then show ?thesis using Cons.IH sp False by simp
    next
      case (Cons a as)
      then show ?thesis using Cons.IH sp False by simp
    qed
  qed
qed

text \<open>The loop keeps two things: the texts of all complete lines of what has arrived,
  and the piece after the last line feed.\<close>

lemma stream_loop_eq:
  "stream_loop parse b cs =
     (if cs = [] then ([], b)
      else (lines_texts parse (butlast (split_nl (b @ concat cs))),
            last (split_nl (b @ concat cs))))"
proof (induction cs arbitrary: b)
  case Nil
  show ?case by simp
next
  case (Cons c cs)
  let ?lines = "split_nl (b @ c)"
  have sp: "split_nl (b @ c @ concat cs)
              = butlast ?lines @ split_nl (last ?lines @ concat cs)"
    using split_nl_append [of "b @ c" "concat cs"] by simp
  show ?case
  proof (cases "cs = []")
    case True
    then show ?thesis by (simp add: Let_def)
  next
    case False
    have ne: "split_nl (last ?lines @ concat cs) \<noteq> []"
      by (rule split_nl_nonempty)
    have "stream_loop parse b (c # cs) =
            (lines_texts parse (butlast ?lines)
               @ lines_texts parse (butlast (split_nl (last ?lines @ concat cs))),
             last (split_nl (last ?lines @ concat cs)))"
      using False Cons.IH [of "last ?lines"] by (simp add: Let_def)
    also have "\<dots> = (lines_texts parse (butlast (split_nl (b @ concat (c # cs)))),
                       last (split_nl (b @ concat (c # cs))))"
      using ne by (simp add: sp butlast_append lines_texts_def)
    finally show ?thesis by simp
  qed
qed

lemma lines_texts_append:
  "lines_texts parse (ls @ ms) = lines_texts parse ls @ lines_texts parse ms"
  by (simp add: lines_texts_def)

text \<open>What the iterator yields depends on the concatenation of the chunks only.\<close>

lemma stream_texts_eq: "stream_texts parse cs = lines_texts parse (split_nl (concat cs))"
proof -
  have "lines_texts parse (butlast (split_nl (concat cs)) @ [last (split_nl (concat cs))])
          = lines_texts parse (split_nl (concat cs))"
    using split_nl_nonempty [of "concat cs"] by simp
  then show ?thesis
    by (cases "cs = []")
       (simp_all add: stream_texts_def stream_loop_eq lines_texts_append lines_texts_def)
qed

lemma toArray_eq:
  "toArray parse clock chunks
     = map (\<lambda>(k, t). content_chunk t (clock k)) (enumerate 0 (stream_texts parse chunks))
       @ [final_chunk (clock (length (stream_texts parse chunks)))]"
  by (simp add: toArray_def Let_def)

lemma toArray_last:
  "last (toArray parse clock chunks) = final_chunk (clock (length (stream_texts parse chunks)))"
  by (simp add: toArray_eq)

lemma toArray_butlast:
  "butlast (toArray parse clock chunks)
     = map (\<lambda>(k, t). content_chunk t (clock k)) (enumerate 0 (stream_texts parse chunks))"
  by (simp add: toArray_eq)

lemma extract_truthy_or_null:
  "extractStreamingText parse l \<noteq> JNull \<Longrightarrow> truthy (extractStreamingText parse l)"
  by (auto simp: extractStreamingText_def Let_def split: if_splits option.splits)

lemma line_texts_truthy: "t \<in> set (line_texts parse l) \<Longrightarrow> truthy t"
  by (auto simp: line_texts_def Let_def extract_truthy_or_null split: if_splits)

lemma stream_texts_truthy: "t \<in> set (stream_texts parse chunks) \<Longrightarrow> truthy t"
  by (auto simp: stream_texts_eq lines_texts_def line_texts_truthy)

lemma chunk_content_content: "chunk_content (content_chunk t now) = t"
  by (simp add: chunk_content_def chunk_choice_def content_chunk_def)

lemma chunk_content_final: "chunk_content (final_chunk now) = JUndefined"
  by (simp add: chunk_content_def chunk_choice_def final_chunk_def)

lemma getText_loop_content:
  "\<forall>t \<in> set ts. truthy t \<Longrightarrow>
   getText_loop numstr acc (map (\<lambda>(k, t). content_chunk t (clock k)) (enumerate n ts) @ rest)
     = getText_loop numstr (acc @ concat (map (js_toString numstr) ts)) rest"
  by (induction ts arbitrary: acc n) (simp_all add: chunk_content_content)

text \<open>\<open>getText\<close> is the concatenation of the texts, whatever the clock.\<close>

lemma getText_eq:
  "getText numstr parse clock chunks = concat (map (js_toString numstr) (stream_texts parse chunks))"
  using getText_loop_content [of "stream_texts parse chunks" numstr "[]" clock 0]
  by (simp add: getText_def toArray_eq stream_texts_truthy chunk_content_final)

lemma mockStream_texts:
  "stream_texts JSON_parse mockStream = [JString ''Hello'', JString '' world'']"
  by code_simp

text \<open>
  C5.  On the three buffers of the test the iterator produces exactly three chunks:
  content \<open>"Hello"\<close>, content \<open>" world"\<close> and the terminal chunk with
  \<open>finish_reason: "stop"\<close>; \<open>getText\<close> returns \<open>"Hello world"\<close>.
\<close>

theorem stream_reassembly:
  "toArray JSON_parse clock mockStream
     = [content_chunk (JString ''Hello'') (clock 0),
        content_chunk (JString '' world'') (clock 1),
        final_chunk (clock 2)]
   \<and> map chunk_content (toArray JSON_parse clock mockStream)
       = [JString ''Hello'', JString '' world'', JUndefined]
   \<and> get_prop (chunk_choice (final_chunk (clock 2))) ''finish_reason'' = JString ''stop''
   \<and> getText numstr JSON_parse clock mockStream = ''Hello world''"
  by (simp add: getText_eq toArray_eq mockStream_texts chunk_content_content chunk_content_final
        numeral_2_eq_2)
     (simp add: chunk_choice_def final_chunk_def)

text \<open>
  C6.  Two lists of chunks with the same concatenation, that is, the same characters
  cut at different places, give the same text (whatever the clock readings) and, the
  clock readings being equal, the same sequence of chunks, the terminal one included.
\<close>

theorem rechunking_invariant:
  assumes "concat chunks = concat chunks'"
  shows "getText numstr parse clock chunks = getText numstr parse clock' chunks'
       \<and> toArray parse clock chunks = toArray parse clock chunks'
       \<and> last (toArray parse clock chunks) = last (toArray parse clock chunks')"
  using assms by (simp add: getText_eq toArray_eq stream_texts_eq)

lemma concat_resplit: "concat mockStream_resplit = concat mockStream"
  by (simp add: mockStream_resplit_def)

theorem rechunking_invariant_witness:
  "concat mockStream_resplit = concat mockStream
   \<and> mockStream_resplit \<noteq> mockStream
   \<and> getText (\<lambda>q. []) JSON_parse (\<lambda>k. 0) mockStream_resplit = ''Hello world''
   \<and> toArray JSON_parse (\<lambda>k. 0) mockStream_resplit = toArray JSON_parse (\<lambda>k. 0) mockStream"
  using rechunking_invariant [OF concat_resplit, of "\<lambda>q. []" JSON_parse "\<lambda>k. 0" "\<lambda>k. 0"]
  by (simp add: getText_eq mockStream_texts concat_resplit)
     (simp add: mockStream_resplit_def mockStream_def)

text \<open>
  C7.  For every list of chunks, the empty one included, the sequence produced is a
  (finite) list that ends with the terminal chunk: \<open>delta = {}\<close>, \<open>finish_reason =
  "stop"\<close>, \<open>index = 0\<close>.  Every chunk before it has \<open>finish_reason = null\<close> and the
  object tag \<open>"chat.completion.chunk"\<close>, so exactly one chunk has the reason \<open>"stop"\<close>.
\<close>

theorem terminal_chunk:
  "toArray parse clock chunks \<noteq> []
   \<and> get_prop (chunk_choice (last (toArray parse clock chunks))) ''delta'' = JObject []
   \<and> get_prop (chunk_choice (last (toArray parse clock chunks))) ''finish_reason'' = JString ''stop''
   \<and> get_prop (chunk_choice (last (toArray parse clock chunks))) ''index'' = JNumber 0
   \<and> (\<forall>chunk \<in> set (butlast (toArray parse clock chunks)).
         get_prop (chunk_choice chunk) ''finish_reason'' = JNull
         \<and> get_prop chunk ''object'' = JString ''chat.completion.chunk'')
   \<and> length (filter (\<lambda>chunk. get_prop (chunk_choice chunk) ''finish_reason'' = JString ''stop'')
                (toArray parse clock chunks)) = 1"
proof -
  have fin: "get_prop (chunk_choice (final_chunk now)) ''delta'' = JObject []
      \<and> get_prop (chunk_choice (final_chunk now)) ''finish_reason'' = JString ''stop''
      \<and> get_prop (chunk_choice (final_chunk now)) ''index'' = JNumber 0" for now
    by (simp add: chunk_choice_def final_chunk_def)
  have con: "get_prop (chunk_choice (content_chunk t now)) ''finish_reason'' = JNull
      \<and> get_prop (content_chunk t now) ''object'' = JString ''chat.completion.chunk''" for t now
    by (simp add: chunk_choice_def content_chunk_def)
  have before: "get_prop (chunk_choice chunk) ''finish_reason'' = JNull
      \<and> get_prop chunk ''object'' = JString ''chat.completion.chunk''"
    if "chunk \<in> set (butlast (toArray parse clock chunks))" for chunk
    using that con by (auto simp: toArray_butlast)
  have none: "filter (\<lambda>chunk. get_prop (chunk_choice chunk) ''finish_reason'' = JString ''stop'')
                (butlast (toArray parse clock chunks)) = []"
    using before by (auto simp: filter_empty_conv)
  have split: "toArray parse clock chunks
                 = butlast (toArray parse clock chunks) @ [last (toArray parse clock chunks)]"
    by (simp add: toArray_eq)
  have one: "length (filter (\<lambda>chunk. get_prop (chunk_choice chunk) ''finish_reason'' = JString ''stop'')
                (toArray parse clock chunks)) = 1"
    by (subst split) (simp add: none toArray_last fin del: butlast.simps)
  show ?thesis
    using before one by (simp add: toArray_last fin) (simp add: toArray_eq)
qed

theorem terminal_chunk_witness:
  "butlast (toArray JSON_parse (\<lambda>k. 0) mockStream)
     = [content_chunk (JString ''Hello'') 0, content_chunk (JString '' world'') 0]
   \<and> get_prop (chunk_choice (content_chunk (JString ''Hello'') 0)) ''finish_reason'' = JNull
   \<and> get_prop (chunk_choice (content_chunk (JString '' world'') 0)) ''finish_reason'' = JNull
   \<and> get_prop (chunk_choice (last (toArray JSON_parse (\<lambda>k. 0) mockStream))) ''finish_reason''
       = JString ''stop''"
  using terminal_chunk [of JSON_parse "\<lambda>k. 0" mockStream]
  by (simp add: toArray_butlast mockStream_texts)

lemma malformed_line_texts: "parse (strip_data bad) = None \<Longrightarrow> line_texts parse bad = []"
  by (simp add: line_texts_def extractStreamingText_def Let_def)

lemma dropWhile_all:
  "(\<forall>c \<in> set (dropWhile P s). P c) \<longleftrightarrow> (\<forall>c \<in> set s. P c)"
proof
  assume inner: "\<forall>c \<in> set (dropWhile P s). P c"
  have "dropWhile P s = []"
  proof (rule ccontr)
    assume ne: "dropWhile P s \<noteq> []"
    then have "\<not> P (hd (dropWhile P s))"
      by (rule hd_dropWhile)
    moreover have "hd (dropWhile P s) \<in> set (dropWhile P s)"
      using ne by (rule hd_in_set)
    ultimately show False using inner by blast
  qed
  then show "\<forall>c \<in> set s. P c"
    by (simp only: dropWhile_eq_Nil_conv)
next
  assume "\<forall>c \<in> set s. P c"
  then show "\<forall>c \<in> set (dropWhile P s). P c"
    using set_dropWhileD by fastforce
qed

lemma trim_empty_iff: "trim s = [] \<longleftrightarrow> (\<forall>c \<in> set s. is_space c)"
proof -
  have "trim s = [] \<longleftrightarrow> (\<forall>c \<in> set (dropWhile is_space s). is_space c)"
    unfolding trim_def by (simp only: rev_is_Nil_conv dropWhile_eq_Nil_conv set_rev)
  then show ?thesis
    by (simp only: dropWhile_all)
qed

lemma strip_data_blank: "trim (strip_data l) \<noteq> [] \<Longrightarrow> trim l \<noteq> []"
proof
  assume ne: "trim (strip_data l) \<noteq> []" and blank: "trim l = []"
  have spaces: "\<forall>c \<in> set l. is_space c"
    using blank by (simp add: trim_empty_iff)
  have "take 6 l \<noteq> ''data: ''"
  proof
    assume pre: "take 6 l = ''data: ''"
    then have "l \<noteq> []" by auto
    then have "hd l = hd (take 6 l)" by (cases l) simp_all
    then have "hd l = CHR ''d''" using pre by simp
    moreover have "hd l \<in> set l" using \<open>l \<noteq> []\<close> by simp
    ultimately have "is_space (CHR ''d'')" using spaces by metis
    then show False by (simp add: is_space_def)
  qed
  then have "strip_data l = l" by (simp add: strip_data_def)
  then show False using ne blank by simp
qed

lemma truthy_get_prop: "truthy (get_prop v k) \<Longrightarrow> truthy v \<and> \<not> nullish v"
  by (cases v) (simp_all add: nullish_def)

lemma truthy_get_index0: "truthy (get_index0 v) \<Longrightarrow> truthy v"
  by (cases v) auto

text \<open>What a line that holds JSON makes the iterator yield: \<open>choices[0].delta.content\<close>
  when truthy, else \<open>choices[0].message.content\<close> when truthy, else nothing.\<close>

lemma line_texts_parsed:
  assumes "trim (strip_data l) \<noteq> []" and "trim (strip_data l) \<noteq> ''[DONE]''"
    and "parse (strip_data l) = Some parsed"
  shows "line_texts parse l =
     (if truthy (get_prop (get_prop (chunk_choice parsed) ''delta'') ''content'')
      then [get_prop (get_prop (chunk_choice parsed) ''delta'') ''content'']
      else if truthy (get_prop (get_prop (chunk_choice parsed) ''message'') ''content'')
      then [get_prop (get_prop (chunk_choice parsed) ''message'') ''content'']
      else [])"
proof -
  let ?choice = "chunk_choice parsed"
  let ?dc = "get_prop (get_prop ?choice ''delta'') ''content''"
  let ?mc = "get_prop (get_prop ?choice ''message'') ''content''"
  have up: "truthy (get_prop ?choice ''delta'') \<and> truthy ?choice
            \<and> truthy (get_prop parsed ''choices'') \<and> \<not> nullish parsed"
    if "truthy ?dc"
    using that truthy_get_prop [of "get_prop ?choice ''delta''" "''content''"]
      truthy_get_prop [of ?choice "''delta''"]
      truthy_get_index0 [of "get_prop parsed ''choices''"]
      truthy_get_prop [of parsed "''choices''"]
    by (simp add: chunk_choice_def)
  have up': "truthy (get_prop ?choice ''message'') \<and> truthy ?choice
            \<and> truthy (get_prop parsed ''choices'') \<and> \<not> nullish parsed"
    if "truthy ?mc"
    using that truthy_get_prop [of "get_prop ?choice ''message''" "''content''"]
      truthy_get_prop [of ?choice "''message''"]
      truthy_get_index0 [of "get_prop parsed ''choices''"]
      truthy_get_prop [of parsed "''choices''"]
    by (simp add: chunk_choice_def)
  have ex: "extractStreamingText parse l =
              (if truthy ?dc then ?dc else if truthy ?mc then ?mc else JNull)"
    using assms up up'
    by (auto simp: extractStreamingText_def Let_def chunk_choice_def)
  have nn: "v \<noteq> JNull" if "truthy v" for v
    using that by auto
  show ?thesis
    using strip_data_blank [OF assms(1)] nn [of ?dc] nn [of ?mc]
    by (simp add: line_texts_def Let_def ex)
qed

lemma toArray_contents:
  "map (\<lambda>chunk. get_prop (get_prop (chunk_choice chunk) ''delta'') ''content'')
     (butlast (toArray parse clock chunks)) = stream_texts parse chunks"
proof -
  have each: "map (\<lambda>chunk. get_prop (get_prop (chunk_choice chunk) ''delta'') ''content'')
                (map (\<lambda>(k, t). content_chunk t (clock k)) kts) = map snd kts" for kts
    by (induction kts) (auto simp: chunk_choice_def content_chunk_def)
  show ?thesis
    unfolding toArray_butlast each by (rule map_snd_enumerate)
qed

lemma toArray_reasons:
  "chunk \<in> set (butlast (toArray parse clock chunks))
   \<Longrightarrow> get_prop (chunk_choice chunk) ''finish_reason'' = JNull"
  by (auto simp: toArray_butlast chunk_choice_def content_chunk_def)

lemma malformed_parse: "JSON_parse (strip_data ''data: {oops'') = None"
  by code_simp

lemma noContent_parse:
  "JSON_parse (strip_data noContentLine)
     = Some (JObject [(''choices'', JArray [JObject [(''delta'', JObject [])]])])"
  by code_simp

lemma noContent_texts: "stream_texts JSON_parse noContentStream = []"
  by code_simp

text \<open>
  C9, as stated: after a malformed line the decoder still yields a chunk for every
  subsequent valid line.  It does not when the line is valid JSON without content: a
  stream whose first line is not JSON and whose second line is
  \<open>data: {"choices":[{"delta":{}}]}\<close> produces the terminal chunk and nothing else.
\<close>

theorem valid_line_without_content_yields_nothing:
  "JSON_parse (strip_data ''data: {oops'') = None
   \<and> JSON_parse (strip_data noContentLine)
       = Some (JObject [(''choices'', JArray [JObject [(''delta'', JObject [])]])])
   \<and> noContentStream = [''data: {oops'' @ [CHR 0x0A], noContentLine @ [CHR 0x0A]]
   \<and> length (toArray JSON_parse epoch_clock noContentStream) = 1
   \<and> get_prop (chunk_choice (last (toArray JSON_parse epoch_clock noContentStream)))
        ''finish_reason'' = JString ''stop''"
  by (simp add: malformed_parse noContent_parse toArray_eq noContent_texts)
     (simp add: noContentStream_def chunk_choice_def final_chunk_def)

text \<open>
  C9, amended.  When the lines of the stream are \<open>before\<close>, then a line on which
  \<open>JSON.parse\<close> throws, then \<open>after\<close>, the decoder does not fail: it produces a
  sequence whose last chunk is the terminal one (\<open>finish_reason = "stop"\<close>, \<open>delta =
  {}\<close>); the chunks before it have \<open>finish_reason = null\<close> and their contents are, in
  order, the texts of the lines before and of the lines after the malformed one, which
  itself gives nothing.  Every other line that holds JSON (and is not blank or
  \<open>[DONE]\<close> after the prefix) yields a chunk with its \<open>choices[0].delta.content\<close> when
  that is truthy, else with its \<open>choices[0].message.content\<close> when that is truthy, and
  no chunk when neither is.
\<close>

theorem malformed_line_skipped:
  assumes "parse (strip_data bad) = None"
    and "split_nl (concat chunks) = before @ bad # after"
  shows "toArray parse clock chunks \<noteq> []
     \<and> get_prop (chunk_choice (last (toArray parse clock chunks))) ''finish_reason''
         = JString ''stop''
     \<and> get_prop (chunk_choice (last (toArray parse clock chunks))) ''delta'' = JObject []
     \<and> (\<forall>chunk \<in> set (butlast (toArray parse clock chunks)).
           get_prop (chunk_choice chunk) ''finish_reason'' = JNull)
     \<and> map (\<lambda>chunk. get_prop (get_prop (chunk_choice chunk) ''delta'') ''content'')
           (butlast (toArray parse clock chunks))
         = lines_texts parse before @ lines_texts parse after
     \<and> (\<forall>l \<in> set (before @ after). \<forall>parsed.
           trim (strip_data l) \<noteq> [] \<and> trim (strip_data l) \<noteq> ''[DONE]''
           \<and> parse (strip_data l) = Some parsed \<longrightarrow>
           (truthy (get_prop (get_prop (chunk_choice parsed) ''delta'') ''content'') \<longrightarrow>
              (\<exists>chunk \<in> set (butlast (toArray parse clock chunks)).
                 get_prop (get_prop (chunk_choice chunk) ''delta'') ''content''
                   = get_prop (get_prop (chunk_choice parsed) ''delta'') ''content''))
           \<and> (\<not> truthy (get_prop (get_prop (chunk_choice parsed) ''delta'') ''content'')
              \<and> truthy (get_prop (get_prop (chunk_choice parsed) ''message'') ''content'') \<longrightarrow>
              (\<exists>chunk \<in> set (butlast (toArray parse clock chunks)).
                 get_prop (get_prop (chunk_choice chunk) ''delta'') ''content''
                   = get_prop (get_prop (chunk_choice parsed) ''message'') ''content''))
           \<and> (\<not> truthy (get_prop (get_prop (chunk_choice parsed) ''delta'') ''content'')
              \<and> \<not> truthy (get_prop (get_prop (chunk_choice parsed) ''message'') ''content'') \<longrightarrow>
              line_texts parse l = []))"
proof -
  let ?out = "toArray parse clock chunks"
  let ?content = "\<lambda>chunk. get_prop (get_prop (chunk_choice chunk) ''delta'') ''content''"
  have texts: "stream_texts parse chunks = lines_texts parse before @ lines_texts parse after"
    using assms malformed_line_texts [of parse bad]
    by (simp add: stream_texts_eq lines_texts_def)
  have contents: "map ?content (butlast ?out) = lines_texts parse before @ lines_texts parse after"
    using toArray_contents [of parse clock chunks] texts by simp
  have ne: "?out \<noteq> []"
    by (simp add: toArray_eq)
  have fin: "get_prop (chunk_choice (last ?out)) ''finish_reason'' = JString ''stop''
           \<and> get_prop (chunk_choice (last ?out)) ''delta'' = JObject []"
    by (simp add: toArray_last chunk_choice_def final_chunk_def)
  have yielded: "\<exists>chunk \<in> set (butlast ?out). ?content chunk = t"
    if "l \<in> set (before @ after)" and "line_texts parse l = [t]" for l t
  proof -
    have "t \<in> set (line_texts parse l)"
      using that(2) by simp
    then have "t \<in> (\<Union>l \<in> set (before @ after). set (line_texts parse l))"
      using that(1) by blast
    then have "t \<in> set (lines_texts parse (before @ after))"
      by (simp add: lines_texts_def)
    then have "t \<in> set (lines_texts parse before @ lines_texts parse after)"
      by (simp only: lines_texts_append)
    then have "t \<in> ?content ` set (butlast ?out)"
      using contents by (metis set_map)
    then show ?thesis by auto
  qed
  have each: "(truthy (?content parsed) \<longrightarrow>
              (\<exists>chunk \<in> set (butlast ?out). ?content chunk = ?content parsed))
           \<and> (\<not> truthy (?content parsed)
              \<and> truthy (get_prop (get_prop (chunk_choice parsed) ''message'') ''content'') \<longrightarrow>
              (\<exists>chunk \<in> set (butlast ?out).
                 ?content chunk = get_prop (get_prop (chunk_choice parsed) ''message'') ''content''))
           \<and> (\<not> truthy (?content parsed)
              \<and> \<not> truthy (get_prop (get_prop (chunk_choice parsed) ''message'') ''content'') \<longrightarrow>
              line_texts parse l = [])"
    if "l \<in> set (before @ after)" and "trim (strip_data l) \<noteq> []"
      and "trim (strip_data l) \<noteq> ''[DONE]''" and "parse (strip_data l) = Some parsed"
    for l parsed
    using line_texts_parsed [of l parse parsed] that(2-4) yielded [OF that(1)] by simp
  show ?thesis
    using ne fin contents toArray_reasons [of _ parse clock chunks] each by blast
qed

lemma malformed_split:
  "split_nl (concat malformedStream) = [] @ ''data: {oops'' # [sse_line ''Hello'', []]"
  by code_simp

lemma malformed_texts: "stream_texts JSON_parse malformedStream = [JString ''Hello'']"
  by code_simp

theorem malformed_line_skipped_witness:
  "JSON_parse (strip_data ''data: {oops'') = None
   \<and> split_nl (concat malformedStream) = [] @ ''data: {oops'' # [sse_line ''Hello'', []]
   \<and> map (\<lambda>chunk. get_prop (get_prop (chunk_choice chunk) ''delta'') ''content'')
         (toArray JSON_parse epoch_clock malformedStream) = [JString ''Hello'', JUndefined]
   \<and> map (\<lambda>chunk. get_prop (chunk_choice chunk) ''finish_reason'')
         (toArray JSON_parse epoch_clock malformedStream) = [JNull, JString ''stop'']"
  using malformed_line_skipped [of JSON_parse "''data: {oops''" malformedStream "[]"
          "[sse_line ''Hello'', []]" epoch_clock]
  by (simp add: malformed_parse malformed_split toArray_eq malformed_texts)
     (simp add: chunk_choice_def content_chunk_def final_chunk_def)

end
